theory Spec2Isabelle
  imports Complex_Main
begin

section \<open>Data model of \<^verbatim>\<open>traffic_omp.c\<close>\<close>

text \<open>
  The C structs become records and the enum a datatype.  A C \<^verbatim>\<open>double\<close> is
  idealised as a \<open>real\<close> (no rounding, no NaN, no infinities); a C \<^verbatim>\<open>int\<close> is an
  \<open>int\<close>, with the 32-bit two's-complement wrap-around written out by \<open>wrap32\<close>
  wherever the source computes with it.  The field \<^verbatim>\<open>id\<close> of both structs is
  renamed (\<open>id_light\<close>, \<open>id_vehicle\<close>) because \<open>id\<close> is the identity function of HOL.
  The array \<^verbatim>\<open>lights\<close> (allocated with \<^verbatim>\<open>num_lights\<close> elements) and the array of
  vehicles are lists.

  The statements about one call of a function and about the counters of the run
  are made on this model.  The statements that depend on values accumulated over
  many ticks (the duration of a phase, the termination of the loop) are made on a
  second model, given after this one, in which the three operations on
  \<^verbatim>\<open>double\<close> are parameters and IEEE 754 binary64 is one of their instances.
\<close>

datatype LightState = RED | GREEN | YELLOW

record TrafficLight =
  id_light :: int
  state :: LightState
  time_in_state :: real
  t_green :: real
  t_yellow :: real
  t_red :: real

record Vehicle =
  id_vehicle :: int
  lane :: int
  pos :: real
  speed :: real
  waiting :: bool
  total_wait :: real
  crossings :: int
  finished :: bool

record Intersection =
  num_lanes :: int
  num_lights :: int
  stop_distance :: real
  lights :: "TrafficLight list"

text \<open>What can go wrong in the model: an array read outside its bounds (undefined
  behaviour in C), and a loop that has not finished within the fuel it was given.\<close>

datatype error = OutOfBounds | OutOfFuel

section \<open>Traffic lights\<close>

text \<open>\<^verbatim>\<open>update_traffic_light\<close>, lines 56-79: the time is increased first, then the
  switch on the state; \<^verbatim>\<open>default\<close> shares the branch of \<^verbatim>\<open>RED\<close>.\<close>

definition update_traffic_light :: "TrafficLight \<Rightarrow> real \<Rightarrow> TrafficLight" where
  "update_traffic_light L dt =
     (let L1 = L\<lparr>time_in_state := time_in_state L + dt\<rparr> in
      case state L1 of
        GREEN \<Rightarrow>
          if time_in_state L1 \<ge> t_green L1
          then L1\<lparr>state := YELLOW, time_in_state := 0\<rparr> else L1
      | YELLOW \<Rightarrow>
          if time_in_state L1 \<ge> t_yellow L1
          then L1\<lparr>state := RED, time_in_state := 0\<rparr> else L1
      | RED \<Rightarrow>
          if time_in_state L1 \<ge> t_red L1
          then L1\<lparr>state := GREEN, time_in_state := 0\<rparr> else L1)"

section \<open>Vehicles\<close>

text \<open>Lines 108-109 of \<^verbatim>\<open>move_vehicle\<close>: the waiting time grows while the vehicle
  waits, and the call reports no crossing.\<close>

definition wait_and_return :: "Vehicle \<Rightarrow> real \<Rightarrow> error + (int \<times> Vehicle)" where
  "wait_and_return V dt =
     Inr (0, if waiting V then V\<lparr>total_wait := total_wait V + dt\<rparr> else V)"

text \<open>\<^verbatim>\<open>move_vehicle\<close>, lines 83-110.  The result is the returned \<^verbatim>\<open>int\<close> and the
  vehicle as the call leaves it; the intersection is only read.  A finished vehicle
  returns before the light is looked up; otherwise \<^verbatim>\<open>X->lights[V->lane]\<close> is read,
  which is outside the array when the lane is negative or not below its length.\<close>

definition move_vehicle :: "Vehicle \<Rightarrow> Intersection \<Rightarrow> real \<Rightarrow> error + (int \<times> Vehicle)" where
  "move_vehicle V X dt =
     (if finished V then Inr (0, V)
      else if lane V < 0 \<or> int (length (lights X)) \<le> lane V then Inl OutOfBounds
      else
        let L = lights X ! nat (lane V);
            V1 = (if waiting V \<and> (state L = GREEN \<or> state L = YELLOW)
                  then V\<lparr>waiting := False\<rparr> else V);
            V2 = (if \<not> waiting V1 then V1\<lparr>pos := pos V1 - speed V1 * dt\<rparr> else V1)
        in
          if pos V2 \<le> 0 then
            (if state L = GREEN \<or> state L = YELLOW
             then Inr (1, V2\<lparr>crossings := 1, finished := True, pos := 0\<rparr>)
             else wait_and_return (V2\<lparr>pos := stop_distance X, waiting := True\<rparr>) dt)
          else wait_and_return V2 dt)"

section \<open>Thread-count heuristic\<close>

text \<open>A C \<^verbatim>\<open>int\<close> is 32 bits wide: \<open>wrap32\<close> brings the result of an operation back
  into \<open>-2^31 ..< 2^31\<close>, as two's-complement hardware does.  C's \<^verbatim>\<open>/\<close> on ints
  truncates towards zero (\<open>c_div\<close>), where \<open>div\<close> of HOL rounds down.\<close>

definition INT_MAX :: int where
  "INT_MAX = 2147483647"

definition wrap32 :: "int \<Rightarrow> int" where
  "wrap32 x = (x + 2147483648) mod 4294967296 - 2147483648"

definition c_div :: "int \<Rightarrow> int \<Rightarrow> int" where
  "c_div a b = sgn a * sgn b * (\<bar>a\<bar> div \<bar>b\<bar>)"

text \<open>\<^verbatim>\<open>choose_threads\<close>, lines 181-189.  The value of \<^verbatim>\<open>omp_get_max_threads()\<close>
  is the parameter \<open>max_threads\<close>.\<close>

definition choose_threads :: "int \<Rightarrow> int \<Rightarrow> int \<Rightarrow> int" where
  "choose_threads max_threads num_vehicles num_lights_green =
     (let by_vehicles = c_div (wrap32 (num_vehicles + 15)) 16;
          by_greens = (if num_lights_green > 0
                       then wrap32 (1 + c_div num_lights_green 2) else 1);
          proposed = wrap32 (by_vehicles + by_greens);
          proposed = (if proposed < 1 then 1 else proposed);
          proposed = (if proposed > max_threads then max_threads else proposed)
      in proposed)"

section \<open>Initialisation\<close>

text \<open>\<^verbatim>\<open>rand_uniform\<close>, line 43.  The quotient \<^verbatim>\<open>rand() / (double)RAND_MAX\<close> is the
  argument \<open>u\<close>; it lies between 0 and 1 because \<^verbatim>\<open>rand()\<close> returns a value from 0
  to \<^verbatim>\<open>RAND_MAX\<close>.  The stream of these quotients, fixed by \<^verbatim>\<open>srand(seed)\<close>, is a
  function \<open>rs\<close> from the number of the draw to its value.\<close>

definition rand_uniform :: "real \<Rightarrow> real \<Rightarrow> real \<Rightarrow> real" where
  "rand_uniform a b u = a + (b - a) * u"

text \<open>\<^verbatim>\<open>init_intersection\<close>, lines 113-128: light \<open>i\<close> takes the draws \<open>3i\<close>, \<open>3i+1\<close>
  and \<open>3i+2\<close> in the order of the three assignments.\<close>

definition init_intersection :: "int \<Rightarrow> (nat \<Rightarrow> real) \<Rightarrow> Intersection" where
  "init_intersection n rs =
     \<lparr>num_lanes = n, num_lights = n, stop_distance = 2,
      lights = map (\<lambda>i. \<lparr>id_light = int i,
                          state = (if i mod 2 = 0 then GREEN else RED),
                          time_in_state = 0,
                          t_green = rand_uniform 5 9 (rs (3 * i)),
                          t_yellow = rand_uniform 2 4 (rs (3 * i + 1)),
                          t_red = rand_uniform 5 9 (rs (3 * i + 2))\<rparr>) [0..<nat n]\<rparr>"

text \<open>\<^verbatim>\<open>init_vehicles\<close>, lines 130-143: vehicle \<open>i\<close> takes two draws, its position and
  then its speed.  For \<open>N \<le> 0\<close> the loop body never runs and there is no vehicle.\<close>

definition init_vehicles :: "int \<Rightarrow> (nat \<Rightarrow> real) \<Rightarrow> Vehicle list" where
  "init_vehicles N rs =
     map (\<lambda>i. \<lparr>id_vehicle = int i, lane = int i mod 4,
               pos = rand_uniform 20 200 (rs (2 * i)),
               speed = rand_uniform 6 14 (rs (2 * i + 1)),
               waiting = False, total_wait = 0, crossings = 0, finished = False\<rparr>)
         [0..<nat N]"

section \<open>The simulation\<close>

text \<open>The variables of \<^verbatim>\<open>run_simulation\<close> that live across ticks.\<close>

record sim_state =
  isect :: Intersection
  vehicles :: "Vehicle list"
  total_crossed :: int
  crossed_now :: "int list"
  step :: int
  sim_time :: real

text \<open>Lines 204-207.\<close>

definition initial_state :: "Intersection \<Rightarrow> Vehicle list \<Rightarrow> sim_state" where
  "initial_state X0 V0 =
     \<lparr>isect = X0, vehicles = V0, total_crossed = 0,
      crossed_now = replicate (length V0) 0, step = 0, sim_time = 0\<rparr>"

text \<open>Lines 216-217, the number of green lights, and line 219, the team size asked
  for.  The team size is handed to the OpenMP runtime and printed; no later value of
  the simulation depends on it.\<close>

definition greens_now :: "Intersection \<Rightarrow> int" where
  "greens_now X0 = int (length (filter (\<lambda>L. state L = GREEN) (lights X0)))"

definition team_size :: "int \<Rightarrow> int \<Rightarrow> sim_state \<Rightarrow> int" where
  "team_size max_threads num_vehicles s =
     choose_threads max_threads num_vehicles (greens_now (isect s))"

text \<open>Lines 233-239, the loop over the vehicles with its reduction: the sum of the
  returned values, the marks \<^verbatim>\<open>crossed_now\<close> and the vehicles after the calls.  The
  iterations are independent of each other, so they are taken in index order.\<close>

fun move_all :: "Vehicle list \<Rightarrow> Intersection \<Rightarrow> real \<Rightarrow> error + (int \<times> int list \<times> Vehicle list)" where
  "move_all [] X0 dt = Inr (0, [], [])"
| "move_all (v # vs) X0 dt =
     (case move_vehicle v X0 dt of
        Inl e \<Rightarrow> Inl e
      | Inr (c, v') \<Rightarrow>
          (case move_all vs X0 dt of
             Inl e \<Rightarrow> Inl e
           | Inr (crossed_step, cn, vs') \<Rightarrow>
               Inr (c + crossed_step, (if c \<noteq> 0 then 1 else 0) # cn, v' # vs')))"

text \<open>One pass of the loop body, lines 222-243: every light is updated, then every
  vehicle is moved against the updated lights, then the counters advance.
  \<^verbatim>\<open>total_crossed\<close> never exceeds the number of vehicles, so it cannot wrap; the
  tick counter can.\<close>

definition tick :: "real \<Rightarrow> sim_state \<Rightarrow> error + sim_state" where
  "tick dt s =
     (let X1 = (isect s)\<lparr>lights := map (\<lambda>L. update_traffic_light L dt) (lights (isect s))\<rparr>
      in case move_all (vehicles s) X1 dt of
           Inl e \<Rightarrow> Inl e
         | Inr (crossed_step, cn, V1) \<Rightarrow>
             Inr \<lparr>isect = X1, vehicles = V1,
                  total_crossed = total_crossed s + crossed_step,
                  crossed_now = cn, step = wrap32 (step s + 1),
                  sim_time = sim_time s + dt\<rparr>)"

text \<open>The state at the \<open>n\<close>-th tick boundary.\<close>

fun ticks :: "nat \<Rightarrow> real \<Rightarrow> sim_state \<Rightarrow> error + sim_state" where
  "ticks 0 dt s = Inr s"
| "ticks (Suc n) dt s = (case tick dt s of Inl e \<Rightarrow> Inl e | Inr s' \<Rightarrow> ticks n dt s')"

text \<open>The \<^verbatim>\<open>while\<close> loop of line 214.  It has no bound of its own, so the model
  counts fuel: \<open>Inl OutOfFuel\<close> says that the loop was still running when the fuel
  was used up.\<close>

fun run_loop :: "nat \<Rightarrow> int \<Rightarrow> real \<Rightarrow> sim_state \<Rightarrow> error + sim_state" where
  "run_loop fuel num_vehicles dt s =
     (if total_crossed s < num_vehicles then
        (case fuel of
           0 \<Rightarrow> Inl OutOfFuel
         | Suc f \<Rightarrow>
             (case tick dt s of
                Inl e \<Rightarrow> Inl e
              | Inr s' \<Rightarrow> run_loop f num_vehicles dt s'))
      else Inr s)"

text \<open>The final metrics, lines 254-267.  With no vehicle at all the average is
  \<^verbatim>\<open>0.0 / 0.0\<close>, which is not a number: \<open>None\<close>.\<close>

record run_stats =
  steps_executed :: int
  vehicles_crossed :: int
  total_crossings :: int
  avg_wait :: "real option"
  simulated_time :: real

definition final_stats :: "int \<Rightarrow> sim_state \<Rightarrow> run_stats" where
  "final_stats num_vehicles s =
     \<lparr>steps_executed = step s,
      vehicles_crossed = total_crossed s,
      total_crossings = sum_list (map crossings (vehicles s)),
      avg_wait = (if num_vehicles = 0 then None
                  else Some (sum_list (map total_wait (vehicles s)) / real_of_int num_vehicles)),
      simulated_time = sim_time s\<rparr>"

text \<open>\<^verbatim>\<open>run_simulation\<close>, lines 192-273, without its printing and its wall clock,
  hence without the parameter \<^verbatim>\<open>print_every\<close>; the seed is represented by the
  stream \<open>rs\<close> of draws it selects.  The intersection takes the first twelve
  draws, the vehicles the following ones.\<close>

definition run_simulation :: "nat \<Rightarrow> (nat \<Rightarrow> real) \<Rightarrow> int \<Rightarrow> real \<Rightarrow> error + run_stats" where
  "run_simulation fuel rs num_vehicles dt =
     (let X0 = init_intersection 4 rs;
          V0 = init_vehicles num_vehicles (\<lambda>k. rs (k + 12))
      in case run_loop fuel num_vehicles dt (initial_state X0 V0) of
           Inl e \<Rightarrow> Inl e
         | Inr s \<Rightarrow> Inr (final_stats num_vehicles s))"

text \<open>\<^verbatim>\<open>main\<close>, lines 275-284.  \<open>args\<close> holds what \<^verbatim>\<open>atoi\<close> makes of \<^verbatim>\<open>argv[1]\<close>,
  \<^verbatim>\<open>argv[2]\<close>, ...; \<open>now\<close> is \<^verbatim>\<open>time(NULL)\<close>; \<open>stream seed\<close> is the stream of draws
  that \<^verbatim>\<open>srand(seed)\<close> selects.  The second argument only sets how often the state
  is printed.  The result is the exit status together with the metrics of the run.\<close>

definition main :: "nat \<Rightarrow> (int \<Rightarrow> nat \<Rightarrow> real) \<Rightarrow> int \<Rightarrow> int list \<Rightarrow> error + (int \<times> run_stats)" where
  "main fuel stream now args =
     (let N = (if length args > 0 then args ! 0 else 8);
          dt = 1;
          seed = (if length args > 2 then args ! 2 else now) mod 4294967296
      in case run_simulation fuel (stream seed) N dt of
           Inl e \<Rightarrow> Inl e
         | Inr st \<Rightarrow> Inr (0, st))"

section \<open>The program with the arithmetic of the machine\<close>

text \<open>
  The definitions above compute with exact real numbers.  The program computes
  with \<^verbatim>\<open>double\<close>: every sum, difference and product is the machine's, which
  rounds.  Where a statement is about values accumulated over many ticks this
  matters, so the functions that compute on \<^verbatim>\<open>double\<close> are given once more with
  the three operations as parameters.  Nothing is assumed about them here: a
  theorem says what it needs of them.  With the exact operations these are the
  functions above (lemmas \<open>update_traffic_light_exact\<close>, \<open>move_vehicle_exact\<close>,
  \<open>tick_exact\<close>, \<open>run_loop_exact\<close>); with the operations of IEEE 754 binary64
  (\<open>binary64_arith\<close>) they are the program.  Comparisons, assignments of the
  constants \<^verbatim>\<open>0.0\<close> and \<^verbatim>\<open>2.0\<close> and the copy of \<^verbatim>\<open>stop_distance\<close> are exact on
  the machine as well.
\<close>

record arith =
  fadd :: "real \<Rightarrow> real \<Rightarrow> real"
  fsub :: "real \<Rightarrow> real \<Rightarrow> real"
  fmul :: "real \<Rightarrow> real \<Rightarrow> real"

definition exact_arith :: arith where
  "exact_arith = \<lparr>fadd = (+), fsub = (-), fmul = (*)\<rparr>"

text \<open>The arithmetic of IEEE 754 binary64 in its default mode: the exact result,
  rounded to the nearest number with 53 significant bits, a tie going to the even
  significand.  The exponent is not bounded here: overflow and subnormal numbers
  are left out, and no value of the simulation comes near either.\<close>

definition round_even :: "real \<Rightarrow> int" where
  "round_even y =
     (let f = \<lfloor>y\<rfloor>; r = y - of_int f
      in if r < 1 / 2 then f else if 1 / 2 < r then f + 1 else if even f then f else f + 1)"

definition rnd64 :: "real \<Rightarrow> real" where
  "rnd64 x =
     (if x = 0 then 0
      else let u = 2 powr of_int (\<lfloor>log 2 \<bar>x\<bar>\<rfloor> - 52)
           in of_int (round_even (x / u)) * u)"

definition binary64_arith :: arith where
  "binary64_arith =
     \<lparr>fadd = (\<lambda>x y. rnd64 (x + y)), fsub = (\<lambda>x y. rnd64 (x - y)),
      fmul = (\<lambda>x y. rnd64 (x * y))\<rparr>"

text \<open>\<^verbatim>\<open>update_traffic_light\<close>, lines 56-79, the sum of line 57 by the machine.\<close>

definition update_traffic_light_fp :: "arith \<Rightarrow> TrafficLight \<Rightarrow> real \<Rightarrow> TrafficLight" where
  "update_traffic_light_fp ar L dt =
     (let L1 = L\<lparr>time_in_state := fadd ar (time_in_state L) dt\<rparr> in
      case state L1 of
        GREEN \<Rightarrow>
          if time_in_state L1 \<ge> t_green L1
          then L1\<lparr>state := YELLOW, time_in_state := 0\<rparr> else L1
      | YELLOW \<Rightarrow>
          if time_in_state L1 \<ge> t_yellow L1
          then L1\<lparr>state := RED, time_in_state := 0\<rparr> else L1
      | RED \<Rightarrow>
          if time_in_state L1 \<ge> t_red L1
          then L1\<lparr>state := GREEN, time_in_state := 0\<rparr> else L1)"

text \<open>\<^verbatim>\<open>move_vehicle\<close>, lines 83-110: the product and the difference of line 93
  and the sum of line 108 by the machine.\<close>

definition wait_and_return_fp :: "arith \<Rightarrow> Vehicle \<Rightarrow> real \<Rightarrow> error + (int \<times> Vehicle)" where
  "wait_and_return_fp ar V dt =
     Inr (0, if waiting V then V\<lparr>total_wait := fadd ar (total_wait V) dt\<rparr> else V)"

definition move_vehicle_fp ::
  "arith \<Rightarrow> Vehicle \<Rightarrow> Intersection \<Rightarrow> real \<Rightarrow> error + (int \<times> Vehicle)" where
  "move_vehicle_fp ar V X dt =
     (if finished V then Inr (0, V)
      else if lane V < 0 \<or> int (length (lights X)) \<le> lane V then Inl OutOfBounds
      else
        let L = lights X ! nat (lane V);
            V1 = (if waiting V \<and> (state L = GREEN \<or> state L = YELLOW)
                  then V\<lparr>waiting := False\<rparr> else V);
            V2 = (if \<not> waiting V1
                  then V1\<lparr>pos := fsub ar (pos V1) (fmul ar (speed V1) dt)\<rparr> else V1)
        in
          if pos V2 \<le> 0 then
            (if state L = GREEN \<or> state L = YELLOW
             then Inr (1, V2\<lparr>crossings := 1, finished := True, pos := 0\<rparr>)
             else wait_and_return_fp ar (V2\<lparr>pos := stop_distance X, waiting := True\<rparr>) dt)
          else wait_and_return_fp ar V2 dt)"

text \<open>\<^verbatim>\<open>rand_uniform\<close>, line 43, and the two initialisations, lines 113-143.\<close>

definition rand_uniform_fp :: "arith \<Rightarrow> real \<Rightarrow> real \<Rightarrow> real \<Rightarrow> real" where
  "rand_uniform_fp ar a b u = fadd ar a (fmul ar (fsub ar b a) u)"

definition init_intersection_fp :: "arith \<Rightarrow> int \<Rightarrow> (nat \<Rightarrow> real) \<Rightarrow> Intersection" where
  "init_intersection_fp ar n rs =
     \<lparr>num_lanes = n, num_lights = n, stop_distance = 2,
      lights = map (\<lambda>i. \<lparr>id_light = int i,
                          state = (if i mod 2 = 0 then GREEN else RED),
                          time_in_state = 0,
                          t_green = rand_uniform_fp ar 5 9 (rs (3 * i)),
                          t_yellow = rand_uniform_fp ar 2 4 (rs (3 * i + 1)),
                          t_red = rand_uniform_fp ar 5 9 (rs (3 * i + 2))\<rparr>) [0..<nat n]\<rparr>"

definition init_vehicles_fp :: "arith \<Rightarrow> int \<Rightarrow> (nat \<Rightarrow> real) \<Rightarrow> Vehicle list" where
  "init_vehicles_fp ar N rs =
     map (\<lambda>i. \<lparr>id_vehicle = int i, lane = int i mod 4,
               pos = rand_uniform_fp ar 20 200 (rs (2 * i)),
               speed = rand_uniform_fp ar 6 14 (rs (2 * i + 1)),
               waiting = False, total_wait = 0, crossings = 0, finished = False\<rparr>)
         [0..<nat N]"

text \<open>The loop over the vehicles, the tick, the state after \<open>n\<close> ticks and the
  \<^verbatim>\<open>while\<close> loop, lines 214-249.\<close>

fun move_all_fp ::
  "arith \<Rightarrow> Vehicle list \<Rightarrow> Intersection \<Rightarrow> real \<Rightarrow> error + (int \<times> int list \<times> Vehicle list)" where
  "move_all_fp ar [] X0 dt = Inr (0, [], [])"
| "move_all_fp ar (v # vs) X0 dt =
     (case move_vehicle_fp ar v X0 dt of
        Inl e \<Rightarrow> Inl e
      | Inr (c, v') \<Rightarrow>
          (case move_all_fp ar vs X0 dt of
             Inl e \<Rightarrow> Inl e
           | Inr (crossed_step, cn, vs') \<Rightarrow>
               Inr (c + crossed_step, (if c \<noteq> 0 then 1 else 0) # cn, v' # vs')))"

definition tick_fp :: "arith \<Rightarrow> real \<Rightarrow> sim_state \<Rightarrow> error + sim_state" where
  "tick_fp ar dt s =
     (let X1 = (isect s)\<lparr>lights :=
                 map (\<lambda>L. update_traffic_light_fp ar L dt) (lights (isect s))\<rparr>
      in case move_all_fp ar (vehicles s) X1 dt of
           Inl e \<Rightarrow> Inl e
         | Inr (crossed_step, cn, V1) \<Rightarrow>
             Inr \<lparr>isect = X1, vehicles = V1,
                  total_crossed = total_crossed s + crossed_step,
                  crossed_now = cn, step = wrap32 (step s + 1),
                  sim_time = fadd ar (sim_time s) dt\<rparr>)"

fun ticks_fp :: "arith \<Rightarrow> nat \<Rightarrow> real \<Rightarrow> sim_state \<Rightarrow> error + sim_state" where
  "ticks_fp ar 0 dt s = Inr s"
| "ticks_fp ar (Suc n) dt s =
     (case tick_fp ar dt s of Inl e \<Rightarrow> Inl e | Inr s' \<Rightarrow> ticks_fp ar n dt s')"

fun run_loop_fp :: "arith \<Rightarrow> nat \<Rightarrow> int \<Rightarrow> real \<Rightarrow> sim_state \<Rightarrow> error + sim_state" where
  "run_loop_fp ar fuel num_vehicles dt s =
     (if total_crossed s < num_vehicles then
        (case fuel of
           0 \<Rightarrow> Inl OutOfFuel
         | Suc f \<Rightarrow>
             (case tick_fp ar dt s of
                Inl e \<Rightarrow> Inl e
              | Inr s' \<Rightarrow> run_loop_fp ar f num_vehicles dt s'))
      else Inr s)"

text \<open>The state in which \<^verbatim>\<open>run_simulation\<close> enters its loop, lines 193-207: the
  intersection takes the first twelve draws, the vehicles the following ones.\<close>

definition start_state :: "arith \<Rightarrow> (nat \<Rightarrow> real) \<Rightarrow> int \<Rightarrow> sim_state" where
  "start_state ar rs num_vehicles =
     initial_state (init_intersection_fp ar 4 rs)
       (init_vehicles_fp ar num_vehicles (\<lambda>k. rs (k + 12)))"

section \<open>Notions of the statements and the proofs\<close>

text \<open>The team size as the specification words it: the clamp to \<open>1 .. M\<close> of
  \<open>ceil (vehicle_count / 16)\<close> plus \<open>1 + floor (lights_currently_green / 2)\<close> when a
  light is green and plus 1 otherwise.  \<open>choose_threads\<close> is compared with it.\<close>

definition clamp :: "int \<Rightarrow> int \<Rightarrow> int \<Rightarrow> int" where
  "clamp x lo hi = (if x < lo then lo else if x > hi then hi else x)"

definition spec_team_size :: "int \<Rightarrow> int \<Rightarrow> int \<Rightarrow> int" where
  "spec_team_size M n g =
     clamp (\<lceil>real_of_int n / 16\<rceil> + (if g > 0 then 1 + \<lfloor>real_of_int g / 2\<rfloor> else 1)) 1 M"

text \<open>The number of vehicles whose \<^verbatim>\<open>finished\<close> flag is set.\<close>

definition num_finished :: "Vehicle list \<Rightarrow> int" where
  "num_finished Vs = int (length (filter finished Vs))"

text \<open>The call \<^verbatim>\<open>move_vehicle(&V[i], &X, dt)\<close> of line 236 as a step on the memory
  that the iterations share: the array of vehicles and the intersection.\<close>

definition move_vehicle_at ::
  "nat \<Rightarrow> Vehicle list \<times> Intersection \<Rightarrow> real \<Rightarrow> error + (int \<times> Vehicle list \<times> Intersection)" where
  "move_vehicle_at i mem dt =
     (case mem of (Vs, X0) \<Rightarrow>
        if length Vs \<le> i then Inl OutOfBounds
        else case move_vehicle (Vs ! i) X0 dt of
               Inl e \<Rightarrow> Inl e
             | Inr (c, v') \<Rightarrow> Inr (c, Vs[i := v'], X0))"

text \<open>What such a call lets its caller see of vehicle \<open>i\<close>: the returned value and
  the vehicle after the call.\<close>

definition outcome_at ::
  "nat \<Rightarrow> error + (int \<times> Vehicle list \<times> Intersection) \<Rightarrow> error + (int \<times> Vehicle)" where
  "outcome_at i r = (case r of Inl e \<Rightarrow> Inl e | Inr (c, Vs, X0) \<Rightarrow> Inr (c, Vs ! i))"

text \<open>The result of \<open>move_vehicle\<close> in closed form, from the state \<open>st\<close> of the
  lane's light and the stop offset \<open>sd\<close> (lemma \<open>move_vehicle_veh_step\<close>).\<close>

definition veh_step :: "Vehicle \<Rightarrow> LightState \<Rightarrow> real \<Rightarrow> real \<Rightarrow> int \<times> Vehicle" where
  "veh_step v st sd dt =
     (if finished v then (0, v)
      else
        let go = (st = GREEN \<or> st = YELLOW);
            w1 = (waiting v \<and> \<not> go);
            p2 = (if w1 then pos v else pos v - speed v * dt)
        in if p2 \<le> 0 then
             (if go then (1, v\<lparr>pos := 0, waiting := False, crossings := 1, finished := True\<rparr>)
              else (0, v\<lparr>pos := sd, waiting := True, total_wait := total_wait v + dt\<rparr>))
           else (0, v\<lparr>pos := p2, waiting := w1,
                       total_wait := (if w1 then total_wait v + dt else total_wait v)\<rparr>))"

text \<open>With the arithmetic of the machine: the result of \<open>move_vehicle_fp\<close> in
  closed form (lemma \<open>move_vehicle_fp_veh_step\<close>), a light after \<open>n\<close> updates, and
  a vehicle after \<open>n\<close> ticks next to the light \<open>L\<close> of its lane: in every tick the
  light is updated first and the vehicle moves against the updated light.\<close>

definition veh_step_fp :: "arith \<Rightarrow> Vehicle \<Rightarrow> LightState \<Rightarrow> real \<Rightarrow> real \<Rightarrow> int \<times> Vehicle" where
  "veh_step_fp ar v st sd dt =
     (if finished v then (0, v)
      else
        let go = (st = GREEN \<or> st = YELLOW);
            w1 = (waiting v \<and> \<not> go);
            p2 = (if w1 then pos v else fsub ar (pos v) (fmul ar (speed v) dt))
        in if p2 \<le> 0 then
             (if go then (1, v\<lparr>pos := 0, waiting := False, crossings := 1, finished := True\<rparr>)
              else (0, v\<lparr>pos := sd, waiting := True, total_wait := fadd ar (total_wait v) dt\<rparr>))
           else (0, v\<lparr>pos := p2, waiting := w1,
                       total_wait := (if w1 then fadd ar (total_wait v) dt else total_wait v)\<rparr>))"




text \<open>What the termination of the loop needs of the machine's arithmetic: a result
  of magnitude up to \<open>2^20\<close> is off by at most \<open>1/8\<close>, and a difference that is not
  positive is not rounded to a positive number.  IEEE 754 binary64 is far more
  accurate (a relative error of \<open>2^-53\<close>) and keeps signs, with or without fused
  multiply-add.\<close>

definition accurate :: "arith \<Rightarrow> bool" where
  "accurate ar \<longleftrightarrow>
     (\<forall>x y. \<bar>x + y\<bar> \<le> 1048576 \<longrightarrow> \<bar>fadd ar x y - (x + y)\<bar> \<le> 1 / 8) \<and>
     (\<forall>x y. \<bar>x - y\<bar> \<le> 1048576 \<longrightarrow> \<bar>fsub ar x y - (x - y)\<bar> \<le> 1 / 8) \<and>
     (\<forall>x y. \<bar>x * y\<bar> \<le> 1048576 \<longrightarrow> \<bar>fmul ar x y - x * y\<bar> \<le> 1 / 8) \<and>
     (\<forall>x y. x - y \<le> 0 \<longrightarrow> fsub ar x y \<le> 0)"



section \<open>Auxiliary facts\<close>

subsection \<open>Machine arithmetic\<close>

lemma wrap32_id: "- 2147483648 \<le> x \<Longrightarrow> x \<le> 2147483647 \<Longrightarrow> wrap32 x = x"
  by (simp add: wrap32_def)

lemma c_div_nonneg: "0 \<le> a \<Longrightarrow> 0 < b \<Longrightarrow> c_div a b = a div b"
  by (cases "a = 0") (simp_all add: c_div_def)

lemma ceiling_div16: "\<lceil>real_of_int n / 16\<rceil> = (n + 15) div 16"
proof -
  define z where "z = (n + 15) div 16"
  have "16 * z \<le> n + 15" "n + 15 < 16 * z + 16"
    unfolding z_def by (simp_all add: zdiv_mono1 pos_imp_zdiv_nonneg_iff)
  then have "real_of_int (16 * z - 16) < real_of_int n" "real_of_int n \<le> real_of_int (16 * z)"
    by (simp_all only: of_int_less_iff of_int_le_iff)
  then have "real_of_int z - 1 < real_of_int n / 16" "real_of_int n / 16 \<le> real_of_int z"
    by simp_all
  then show ?thesis unfolding z_def by (rule ceiling_unique)
qed

lemma floor_div2: "\<lfloor>real_of_int g / 2\<rfloor> = g div 2"
proof -
  have "\<lfloor>real_of_int g / real_of_int 2\<rfloor> = g div 2"
    by (rule floor_divide_of_int_eq)
  then show ?thesis by simp
qed

subsection \<open>One call of \<open>move_vehicle\<close>\<close>

lemma move_vehicle_veh_step:
  assumes "finished v \<or> (0 \<le> lane v \<and> lane v < int (length (lights X0)))"
  shows "move_vehicle v X0 dt =
           Inr (veh_step v (state (lights X0 ! nat (lane v))) (stop_distance X0) dt)"
  using assms
  unfolding move_vehicle_def veh_step_def wait_and_return_def Let_def
  by (cases "state (lights X0 ! nat (lane v))") auto

lemma move_vehicle_count:
  assumes "move_vehicle v X0 dt = Inr (c, v')"
  shows "c = (if finished v' \<and> \<not> finished v then 1 else 0) \<and> (finished v \<longrightarrow> v' = v) \<and>
         lane v' = lane v \<and> speed v' = speed v"
  using assms
  unfolding move_vehicle_def wait_and_return_def Let_def
  by (auto split: if_splits)

lemma move_vehicle_crossings:
  assumes "move_vehicle v X0 dt = Inr (c, v')" "crossings v = 0 \<or> crossings v = 1"
  shows "crossings v' = 0 \<or> crossings v' = 1"
  using assms
  unfolding move_vehicle_def wait_and_return_def Let_def
  by (auto split: if_splits)

subsection \<open>The loop over the vehicles and the tick\<close>

lemma move_all_length:
  "move_all Vs X0 dt = Inr (cs, cn, Vs') \<Longrightarrow> length Vs' = length Vs \<and> length cn = length Vs"
  by (induction Vs arbitrary: cs cn Vs') (auto split: sum.splits prod.splits)

lemma move_all_nth:
  "move_all Vs X0 dt = Inr (cs, cn, Vs') \<Longrightarrow> i < length Vs \<Longrightarrow>
     \<exists>c. move_vehicle (Vs ! i) X0 dt = Inr (c, Vs' ! i)"
proof (induction Vs arbitrary: cs cn Vs' i)
  case Nil
  then show ?case by simp
next
  case (Cons v vs)
  then show ?case
    by (cases i) (auto split: sum.splits prod.splits)
qed

lemma move_all_count:
  "move_all Vs X0 dt = Inr (cs, cn, Vs') \<Longrightarrow> num_finished Vs' = num_finished Vs + cs"
proof (induction Vs arbitrary: cs cn Vs')
  case Nil
  then show ?case by (simp add: num_finished_def)
next
  case (Cons v vs)
  from Cons.prems obtain c v' cs' cn' vs' where
    mv: "move_vehicle v X0 dt = Inr (c, v')" and
    rest: "move_all vs X0 dt = Inr (cs', cn', vs')" and
    eq: "cs = c + cs'" "Vs' = v' # vs'"
    by (auto split: sum.splits prod.splits)
  from Cons.IH [OF rest] have "num_finished vs' = num_finished vs + cs'" .
  moreover from move_vehicle_count [OF mv]
  have "c = (if finished v' \<and> \<not> finished v then 1 else 0)" "finished v \<longrightarrow> v' = v" by simp_all
  ultimately show ?case
    using eq by (auto simp add: num_finished_def)
qed

lemma tick_conserves:
  assumes "tick dt s = Inr s'"
  shows "total_crossed s' - num_finished (vehicles s') = total_crossed s - num_finished (vehicles s)"
    and "length (vehicles s') = length (vehicles s)"
  using assms move_all_count move_all_length
  unfolding tick_def Let_def
  by (fastforce split: sum.splits prod.splits)+

lemma ticks_conserves:
  "ticks n dt s = Inr s' \<Longrightarrow>
     total_crossed s' - num_finished (vehicles s') = total_crossed s - num_finished (vehicles s) \<and>
     length (vehicles s') = length (vehicles s)"
proof (induction n arbitrary: s)
  case 0
  then show ?case by simp
next
  case (Suc n)
  then obtain s1 where t: "tick dt s = Inr s1" and r: "ticks n dt s1 = Inr s'"
    by (auto split: sum.splits)
  from Suc.IH [OF r] tick_conserves [OF t] show ?case by simp
qed

lemma run_loop_ticks:
  "run_loop fuel N dt s = Inr s' \<Longrightarrow>
     \<exists>n\<le>fuel. ticks n dt s = Inr s' \<and> \<not> total_crossed s' < N"
proof (induction fuel arbitrary: s)
  case 0
  then show ?case by (auto split: if_splits)
next
  case (Suc f)
  show ?case
  proof (cases "total_crossed s < N")
    case False
    with Suc.prems have "s' = s" by simp
    with False show ?thesis by (intro exI [of _ 0]) simp
  next
    case True
    with Suc.prems obtain s1 where t: "tick dt s = Inr s1" and r: "run_loop f N dt s1 = Inr s'"
      by (auto split: sum.splits)
    from Suc.IH [OF r] obtain n where "n \<le> f" "ticks n dt s1 = Inr s'" "\<not> total_crossed s' < N"
      by blast
    with t show ?thesis by (intro exI [of _ "Suc n"]) simp
  qed
qed

lemma num_finished_le: "num_finished Vs \<le> int (length Vs)"
  by (simp add: num_finished_def)

subsection \<open>What the initialisation establishes\<close>

lemma init_vehicles_props:
  "v \<in> set (init_vehicles N rs) \<Longrightarrow>
     \<not> finished v \<and> \<not> waiting v \<and> crossings v = 0 \<and> total_wait v = 0 \<and> 0 \<le> lane v \<and> lane v < 4"
  by (auto simp add: init_vehicles_def)

lemma num_finished_init: "num_finished (init_vehicles N rs) = 0"
  using init_vehicles_props [of _ N rs]
  by (simp add: num_finished_def filter_empty_conv)

lemma length_init_vehicles: "length (init_vehicles N rs) = nat N"
  by (simp add: init_vehicles_def)

section \<open>The motion model\<close>

text \<open>
  Claim C1.  For a vehicle \<open>V\<close> that has not finished and whose lane has a light in
  \<open>X\<close>, \<open>move_vehicle V X dt\<close> carries out the four steps of the motion model in
  their order.  Step 1 leaves the vehicle waiting exactly when it was waiting and
  the light is neither green nor yellow (\<open>w1\<close>).  Step 2 then gives the position
  \<open>p2\<close>: the old one for a waiting vehicle, \<open>pos V - speed V * dt\<close> otherwise.
  Step 3: if \<open>p2 \<le> 0\<close> under green or yellow the vehicle is finished with one
  crossing, its position is exactly 0 and the call returns 1; if \<open>p2 \<le> 0\<close> under
  red the position is the stop offset and the vehicle waits.  Step 4: a vehicle
  that waits at the end has its waiting time increased by exactly \<open>dt\<close>, any other
  keeps it.  Every case but the crossing returns 0; identity, lane and speed never
  change.  The statement holds for every \<open>dt\<close>, in particular for \<open>dt > 0\<close>.
\<close>

theorem move_vehicle_four_steps:
  fixes V :: Vehicle and X :: Intersection and dt :: real
  assumes "\<not> finished V" and "0 \<le> lane V" and "lane V < int (length (lights X))"
  defines "L \<equiv> lights X ! nat (lane V)"
  defines "go \<equiv> (state L = GREEN \<or> state L = YELLOW)"
  defines "w1 \<equiv> (waiting V \<and> \<not> go)"
  defines "p2 \<equiv> (if w1 then pos V else pos V - speed V * dt)"
  shows "\<exists>c V'. move_vehicle V X dt = Inr (c, V') \<and>
           (p2 \<le> 0 \<and> go \<longrightarrow>
              c = 1 \<and> finished V' \<and> crossings V' = 1 \<and> pos V' = 0 \<and>
              \<not> waiting V' \<and> total_wait V' = total_wait V) \<and>
           (p2 \<le> 0 \<and> state L = RED \<longrightarrow>
              c = 0 \<and> pos V' = stop_distance X \<and> waiting V' \<and>
              total_wait V' = total_wait V + dt \<and>
              \<not> finished V' \<and> crossings V' = crossings V) \<and>
           (0 < p2 \<longrightarrow>
              c = 0 \<and> pos V' = p2 \<and> waiting V' = w1 \<and>
              total_wait V' = (if w1 then total_wait V + dt else total_wait V) \<and>
              \<not> finished V' \<and> crossings V' = crossings V) \<and>
           id_vehicle V' = id_vehicle V \<and> lane V' = lane V \<and> speed V' = speed V"
  using assms(1-3)
  unfolding L_def go_def w1_def p2_def move_vehicle_def wait_and_return_def Let_def
  by (cases "state (lights X ! nat (lane V))") auto

text \<open>One vehicle on lane 0 at 5 m/s and a tick of one second: 5 m before the
  line under green it crosses; 5 m before the line under red it is put at the
  stop offset and waits one second; 20 m before the line it moves on.\<close>

theorem move_vehicle_four_steps_witness:
  "move_vehicle
     \<lparr>id_vehicle = 0, lane = 0, pos = 5, speed = 5, waiting = False,
      total_wait = 0, crossings = 0, finished = False\<rparr>
     \<lparr>num_lanes = 1, num_lights = 1, stop_distance = 2,
      lights = [\<lparr>id_light = 0, state = GREEN, time_in_state = 1,
                 t_green = 12, t_yellow = 3, t_red = 15\<rparr>]\<rparr> 1
   = Inr (1, \<lparr>id_vehicle = 0, lane = 0, pos = 0, speed = 5, waiting = False,
              total_wait = 0, crossings = 1, finished = True\<rparr>) \<and>
   move_vehicle
     \<lparr>id_vehicle = 0, lane = 0, pos = 5, speed = 5, waiting = False,
      total_wait = 0, crossings = 0, finished = False\<rparr>
     \<lparr>num_lanes = 1, num_lights = 1, stop_distance = 2,
      lights = [\<lparr>id_light = 0, state = RED, time_in_state = 1,
                 t_green = 12, t_yellow = 3, t_red = 15\<rparr>]\<rparr> 1
   = Inr (0, \<lparr>id_vehicle = 0, lane = 0, pos = 2, speed = 5, waiting = True,
              total_wait = 1, crossings = 0, finished = False\<rparr>) \<and>
   move_vehicle
     \<lparr>id_vehicle = 0, lane = 0, pos = 20, speed = 5, waiting = False,
      total_wait = 0, crossings = 0, finished = False\<rparr>
     \<lparr>num_lanes = 1, num_lights = 1, stop_distance = 2,
      lights = [\<lparr>id_light = 0, state = RED, time_in_state = 1,
                 t_green = 12, t_yellow = 3, t_red = 15\<rparr>]\<rparr> 1
   = Inr (0, \<lparr>id_vehicle = 0, lane = 0, pos = 15, speed = 5, waiting = False,
              total_wait = 0, crossings = 0, finished = False\<rparr>)"
proof -
  let ?v = "\<lambda>p. \<lparr>id_vehicle = 0, lane = 0, pos = p, speed = 5, waiting = False,
                 total_wait = 0, crossings = 0, finished = False\<rparr>"
  let ?X = "\<lambda>st. \<lparr>num_lanes = 1, num_lights = 1, stop_distance = 2,
                  lights = [\<lparr>id_light = 0, state = st, time_in_state = 1,
                             t_green = 12, t_yellow = 3, t_red = 15\<rparr>]\<rparr>"
  from move_vehicle_four_steps [of "?v 5" "?X GREEN" 1]
  obtain c1 V1 where 1: "move_vehicle (?v 5) (?X GREEN) 1 = Inr (c1, V1)"
    "c1 = 1" "finished V1" "crossings V1 = 1" "pos V1 = 0" "\<not> waiting V1" "total_wait V1 = 0"
    "id_vehicle V1 = 0" "lane V1 = 0" "speed V1 = 5"
    by auto
  from move_vehicle_four_steps [of "?v 5" "?X RED" 1]
  obtain c2 V2 where 2: "move_vehicle (?v 5) (?X RED) 1 = Inr (c2, V2)"
    "c2 = 0" "\<not> finished V2" "crossings V2 = 0" "pos V2 = 2" "waiting V2" "total_wait V2 = 1"
    "id_vehicle V2 = 0" "lane V2 = 0" "speed V2 = 5"
    by auto
  from move_vehicle_four_steps [of "?v 20" "?X RED" 1]
  obtain c3 V3 where 3: "move_vehicle (?v 20) (?X RED) 1 = Inr (c3, V3)"
    "c3 = 0" "\<not> finished V3" "crossings V3 = 0" "pos V3 = 15" "\<not> waiting V3" "total_wait V3 = 0"
    "id_vehicle V3 = 0" "lane V3 = 0" "speed V3 = 5"
    by auto
  from 1 2 3 show ?thesis by simp
qed

section \<open>The light cycle\<close>

text \<open>
  Claim C2.  \<open>update_traffic_light L dt\<close> adds \<open>dt\<close> to the accumulated time and then
  decides on the sum \<open>T\<close>: a green light turns yellow exactly when \<open>T \<ge> t_green\<close>, a
  yellow one red exactly when \<open>T \<ge> t_yellow\<close>, a red one green exactly when
  \<open>T \<ge> t_red\<close>; every switch resets the accumulated time to exactly 0, so that no
  overshoot is carried over; without a switch the phase stays and the accumulated
  time is \<open>T\<close>.  The durations and the identity are untouched.  The update is a
  total function of the light and \<open>dt\<close>, for every \<open>dt\<close>.
\<close>

theorem update_traffic_light_cycle:
  fixes L :: TrafficLight and dt :: real
  defines "T \<equiv> time_in_state L + dt"
  defines "L' \<equiv> update_traffic_light L dt"
  shows "(state L = GREEN \<longrightarrow>
            (if T \<ge> t_green L then state L' = YELLOW \<and> time_in_state L' = 0
             else state L' = GREEN \<and> time_in_state L' = T)) \<and>
         (state L = YELLOW \<longrightarrow>
            (if T \<ge> t_yellow L then state L' = RED \<and> time_in_state L' = 0
             else state L' = YELLOW \<and> time_in_state L' = T)) \<and>
         (state L = RED \<longrightarrow>
            (if T \<ge> t_red L then state L' = GREEN \<and> time_in_state L' = 0
             else state L' = RED \<and> time_in_state L' = T)) \<and>
         t_green L' = t_green L \<and> t_yellow L' = t_yellow L \<and> t_red L' = t_red L \<and>
         id_light L' = id_light L"
  unfolding T_def L'_def update_traffic_light_def Let_def
  by (cases "state L") simp_all

text \<open>A light with 12 s of green, 3 s of yellow and 15 s of red and a tick of 2 s:
  green for 11 s it turns yellow, yellow for 1 s it turns red, red for 4 s it
  stays red with 6 s on its clock.\<close>

theorem update_traffic_light_cycle_witness:
  "update_traffic_light
     \<lparr>id_light = 0, state = GREEN, time_in_state = 11,
      t_green = 12, t_yellow = 3, t_red = 15\<rparr> 2
   = \<lparr>id_light = 0, state = YELLOW, time_in_state = 0,
      t_green = 12, t_yellow = 3, t_red = 15\<rparr> \<and>
   update_traffic_light
     \<lparr>id_light = 0, state = YELLOW, time_in_state = 1,
      t_green = 12, t_yellow = 3, t_red = 15\<rparr> 2
   = \<lparr>id_light = 0, state = RED, time_in_state = 0,
      t_green = 12, t_yellow = 3, t_red = 15\<rparr> \<and>
   update_traffic_light
     \<lparr>id_light = 0, state = RED, time_in_state = 4,
      t_green = 12, t_yellow = 3, t_red = 15\<rparr> 2
   = \<lparr>id_light = 0, state = RED, time_in_state = 6,
      t_green = 12, t_yellow = 3, t_red = 15\<rparr>"
proof -
  let ?L = "\<lambda>st t. \<lparr>id_light = 0, state = st, time_in_state = t,
                    t_green = 12, t_yellow = 3, t_red = 15\<rparr>"
  have "update_traffic_light (?L GREEN 11) 2 = ?L YELLOW 0"
    using update_traffic_light_cycle [of "?L GREEN 11" 2]
    by (cases "update_traffic_light (?L GREEN 11) 2") simp
  moreover have "update_traffic_light (?L YELLOW 1) 2 = ?L RED 0"
    using update_traffic_light_cycle [of "?L YELLOW 1" 2]
    by (cases "update_traffic_light (?L YELLOW 1) 2") simp
  moreover have "update_traffic_light (?L RED 4) 2 = ?L RED 6"
    using update_traffic_light_cycle [of "?L RED 4" 2]
    by (cases "update_traffic_light (?L RED 4) 2") simp
  ultimately show ?thesis by simp
qed

section \<open>The thread-count heuristic\<close>

text \<open>
  Claim C6, as the code has it.  With \<open>INT_MAX\<close> vehicles the sum
  \<^verbatim>\<open>num_vehicles + 15\<close> leaves the range of \<^verbatim>\<open>int\<close>: the code proposes one thread
  where the formula asks for the maximum.
\<close>

theorem choose_threads_counterexample:
  "choose_threads 8 2147483647 0 = 1 \<and> spec_team_size 8 2147483647 0 = 8"
  by (simp add: choose_threads_def spec_team_size_def clamp_def wrap32_def c_div_def Let_def)

text \<open>
  Claim C6, amended.  For \<open>0 \<le> n \<le> INT_MAX - 15\<close> vehicles, \<open>0 \<le> g \<le> INT_MAX\<close> green
  lights and a maximum of \<open>M \<ge> 1\<close> workers, \<open>choose_threads\<close> is the clamp of
  \<open>ceil (n / 16) + (1 + floor (g / 2) if g > 0 else 1)\<close> to \<open>1 .. M\<close>.
\<close>

theorem choose_threads_formula:
  assumes "0 \<le> n" and "n \<le> INT_MAX - 15" and "0 \<le> g" and "g \<le> INT_MAX" and "1 \<le> M"
  shows "choose_threads M n g = spec_team_size M n g"
proof -
  define bv where "bv = (n + 15) div 16"
  define bg where "bg = g div 2"
  have "(n + 15) div 16 \<le> 2147483647 div 16"
    using assms by (intro zdiv_mono1) (simp_all add: INT_MAX_def)
  moreover have "0 \<le> (n + 15) div 16"
    using assms by (simp add: pos_imp_zdiv_nonneg_iff)
  ultimately have bv: "0 \<le> bv" "bv \<le> 134217727"
    by (simp_all add: bv_def)
  have "g div 2 \<le> 2147483647 div 2"
    using assms by (intro zdiv_mono1) (simp_all add: INT_MAX_def)
  moreover have "0 \<le> g div 2"
    using assms by (simp add: pos_imp_zdiv_nonneg_iff)
  ultimately have bg: "0 \<le> bg" "bg \<le> 1073741823"
    by (simp_all add: bg_def)
  have a: "wrap32 (n + 15) = n + 15"
    using assms by (intro wrap32_id) (simp_all add: INT_MAX_def)
  have b: "c_div (n + 15) 16 = bv"
    using assms by (simp add: c_div_nonneg bv_def)
  have c: "c_div g 2 = bg"
    using assms by (simp add: c_div_nonneg bg_def)
  have d: "wrap32 (1 + bg) = 1 + bg"
    using bg by (intro wrap32_id) simp_all
  have e: "wrap32 (bv + 1) = bv + 1" "wrap32 (bv + (1 + bg)) = bv + (1 + bg)"
    using bv bg by (simp_all add: wrap32_id)
  have f: "\<lceil>real_of_int n / 16\<rceil> = bv" "\<lfloor>real_of_int g / 2\<rfloor> = bg"
    by (simp_all add: ceiling_div16 floor_div2 bv_def bg_def)
  show ?thesis
    unfolding choose_threads_def spec_team_size_def clamp_def Let_def a b c d f
    using assms(5) by (simp add: e)
qed

theorem choose_threads_formula_witness:
  "choose_threads 8 20 3 = 4 \<and> spec_team_size 8 20 3 = 4"
proof -
  have "choose_threads 8 20 3 = spec_team_size 8 20 3"
    by (rule choose_threads_formula) (simp_all add: INT_MAX_def)
  moreover have "choose_threads 8 20 3 = 4"
    by (simp add: choose_threads_def wrap32_def c_div_def)
  ultimately show ?thesis by simp
qed

section \<open>Invariants of the run\<close>

lemma tick_nth:
  assumes "tick dt s = Inr s'" and "i < length (vehicles s)"
  shows "\<exists>c. move_vehicle (vehicles s ! i)
                ((isect s)\<lparr>lights := map (\<lambda>L. update_traffic_light L dt) (lights (isect s))\<rparr>) dt
              = Inr (c, vehicles s' ! i)"
proof -
  from assms(1) obtain cs cn V1 where
    "move_all (vehicles s)
       ((isect s)\<lparr>lights := map (\<lambda>L. update_traffic_light L dt) (lights (isect s))\<rparr>) dt
     = Inr (cs, cn, V1)" and "vehicles s' = V1"
    unfolding tick_def Let_def by (auto split: sum.splits prod.splits)
  with move_all_nth [OF this(1) assms(2)] show ?thesis by simp
qed

lemma tick_crossings:
  assumes "tick dt s = Inr s'"
    and "\<forall>v\<in>set (vehicles s). crossings v = 0 \<or> crossings v = 1"
  shows "\<forall>v\<in>set (vehicles s'). crossings v = 0 \<or> crossings v = 1"
proof
  fix v' assume "v' \<in> set (vehicles s')"
  then obtain i where i: "i < length (vehicles s')" "v' = vehicles s' ! i"
    by (auto simp add: in_set_conv_nth)
  with tick_conserves(2) [OF assms(1)] have il: "i < length (vehicles s)" by simp
  from tick_nth [OF assms(1) il] obtain c X1 where
    "move_vehicle (vehicles s ! i) X1 dt = Inr (c, v')" using i by auto
  moreover from il assms(2) have "crossings (vehicles s ! i) = 0 \<or> crossings (vehicles s ! i) = 1"
    by simp
  ultimately show "crossings v' = 0 \<or> crossings v' = 1"
    by (rule move_vehicle_crossings)
qed

lemma ticks_crossings:
  "ticks n dt s = Inr s' \<Longrightarrow> \<forall>v\<in>set (vehicles s). crossings v = 0 \<or> crossings v = 1 \<Longrightarrow>
     \<forall>v\<in>set (vehicles s'). crossings v = 0 \<or> crossings v = 1"
proof (induction n arbitrary: s)
  case 0
  then show ?case by simp
next
  case (Suc n)
  then obtain s1 where t: "tick dt s = Inr s1" and r: "ticks n dt s1 = Inr s'"
    by (auto split: sum.splits)
  from Suc.IH [OF r tick_crossings [OF t Suc.prems(2)]] show ?case .
qed

lemma tick_frozen:
  assumes "tick dt s = Inr s'" and "i < length (vehicles s)" and "finished (vehicles s ! i)"
  shows "vehicles s' ! i = vehicles s ! i"
proof -
  from tick_nth [OF assms(1,2)] obtain c X1 where
    "move_vehicle (vehicles s ! i) X1 dt = Inr (c, vehicles s' ! i)" by blast
  from move_vehicle_count [OF this] assms(3) show ?thesis by simp
qed

lemma ticks_frozen:
  "ticks n dt s = Inr s' \<Longrightarrow> i < length (vehicles s) \<Longrightarrow> finished (vehicles s ! i) \<Longrightarrow>
     vehicles s' ! i = vehicles s ! i"
proof (induction n arbitrary: s)
  case 0
  then show ?case by simp
next
  case (Suc n)
  then obtain s1 where t: "tick dt s = Inr s1" and r: "ticks n dt s1 = Inr s'"
    by (auto split: sum.splits)
  have eq: "vehicles s1 ! i = vehicles s ! i"
    using tick_frozen [OF t Suc.prems(2,3)] .
  moreover have "i < length (vehicles s1)"
    using tick_conserves(2) [OF t] Suc.prems(2) by simp
  ultimately show ?case
    using Suc.IH [OF r] Suc.prems(3) by simp
qed

text \<open>
  Claim C4, as the code has it.  A negative vehicle count is accepted: the loop
  is left at once and the run ends normally with a crossed count of 0, which is
  not the vehicle count \<open>-1\<close>.
\<close>

theorem conservation_counterexample:
  "run_simulation 0 (\<lambda>k. 0) (- 1) 1
   = Inr \<lparr>steps_executed = 0, vehicles_crossed = 0, total_crossings = 0,
          avg_wait = Some 0, simulated_time = 0\<rparr>"
  by (simp add: run_simulation_def initial_state_def final_stats_def init_vehicles_def)

text \<open>
  Claim C4, amended.  In a run of \<open>run_simulation\<close>, at every tick boundary the
  cumulative crossed count \<open>total_crossed\<close> is the number of vehicles whose
  finished flag is set; when the loop ends and the vehicle count is not negative,
  this count is the vehicle count exactly.
\<close>

theorem conservation:
  fixes rs :: "nat \<Rightarrow> real" and N :: int and dt :: real
  defines "s0 \<equiv> initial_state (init_intersection 4 rs) (init_vehicles N (\<lambda>k. rs (k + 12)))"
  shows "(ticks n dt s0 = Inr s \<longrightarrow> total_crossed s = num_finished (vehicles s)) \<and>
         (0 \<le> N \<and> run_loop fuel N dt s0 = Inr s' \<longrightarrow>
            total_crossed s' = N \<and> num_finished (vehicles s') = N)"
proof -
  have init: "total_crossed s0 = 0" "num_finished (vehicles s0) = 0" "length (vehicles s0) = nat N"
    by (simp_all add: s0_def initial_state_def num_finished_init length_init_vehicles)
  have inv: "total_crossed t = num_finished (vehicles t) \<and> length (vehicles t) = nat N"
    if "ticks k dt s0 = Inr t" for k t
    using ticks_conserves [OF that] init by simp
  have "total_crossed s' = N \<and> num_finished (vehicles s') = N"
    if N: "0 \<le> N" and run: "run_loop fuel N dt s0 = Inr s'"
  proof -
    from run_loop_ticks [OF run] obtain k where
      k: "ticks k dt s0 = Inr s'" and ge: "\<not> total_crossed s' < N" by blast
    from inv [OF k] num_finished_le [of "vehicles s'"] N
    have "total_crossed s' \<le> N" "total_crossed s' = num_finished (vehicles s')" by simp_all
    with ge show ?thesis by simp
  qed
  with inv show ?thesis by blast
qed

text \<open>
  Claim C5.  In every state that a run reaches, every vehicle has \<open>crossings\<close> 0 or
  1.  A call of \<open>move_vehicle\<close> on a finished vehicle returns 0 and leaves the whole
  vehicle as it is, with any intersection and any \<open>dt\<close>; hence over any number of
  further ticks a finished vehicle keeps its distance, its waiting time and its
  stopped flag.
\<close>

theorem one_shot_crossing:
  fixes rs :: "nat \<Rightarrow> real" and N :: int and dt :: real
  defines "s0 \<equiv> initial_state (init_intersection 4 rs) (init_vehicles N (\<lambda>k. rs (k + 12)))"
  shows "(ticks n dt s0 = Inr s \<longrightarrow> (\<forall>v\<in>set (vehicles s). crossings v = 0 \<or> crossings v = 1)) \<and>
         (finished v \<longrightarrow> move_vehicle v X dt' = Inr (0, v)) \<and>
         (ticks m dt' t = Inr t' \<and> i < length (vehicles t) \<and> finished (vehicles t ! i) \<longrightarrow>
            vehicles t' ! i = vehicles t ! i)"
proof (intro conjI impI)
  assume "ticks n dt s0 = Inr s"
  moreover have "\<forall>v\<in>set (vehicles s0). crossings v = 0 \<or> crossings v = 1"
    using init_vehicles_props by (auto simp add: s0_def initial_state_def)
  ultimately show "\<forall>v\<in>set (vehicles s). crossings v = 0 \<or> crossings v = 1"
    by (rule ticks_crossings)
next
  assume "finished v"
  then show "move_vehicle v X dt' = Inr (0, v)"
    by (simp add: move_vehicle_def)
next
  assume "ticks m dt' t = Inr t' \<and> i < length (vehicles t) \<and> finished (vehicles t ! i)"
  then show "vehicles t' ! i = vehicles t ! i"
    using ticks_frozen by blast
qed

lemma upt_nat_4: "[0..<nat 4] = [0, 1, 2, 3]"
  by (simp add: upt_rec)

lemma upt_nat_1: "[0..<nat 1] = [0]"
  by (simp add: upt_rec)

lemmas run_eval =
  initial_state_def init_intersection_def init_vehicles_def rand_uniform_def
  upt_nat_4 upt_nat_1 tick_def move_vehicle_def update_traffic_light_def
  wait_and_return_def Let_def

text \<open>One vehicle, every draw 0: it starts 20 m before the line at 6 m/s under a
  green light of 5 s and crosses in the fourth tick.\<close>

theorem conservation_witness:
  "(\<exists>s. ticks 2 1 (initial_state (init_intersection 4 (\<lambda>k. 0)) (init_vehicles 1 (\<lambda>k. 0)))
          = Inr s \<and>
        total_crossed s = num_finished (vehicles s)) \<and>
   (\<exists>s'. run_loop 4 1 1 (initial_state (init_intersection 4 (\<lambda>k. 0)) (init_vehicles 1 (\<lambda>k. 0)))
          = Inr s' \<and>
        total_crossed s' = 1 \<and> num_finished (vehicles s') = 1)"
proof -
  obtain s where
    t: "ticks 2 1 (initial_state (init_intersection 4 (\<lambda>k. 0)) (init_vehicles 1 (\<lambda>k. 0)))
          = Inr s"
    by (simp add: run_eval numeral_2_eq_2)
  obtain s' where
    r: "run_loop 4 1 1 (initial_state (init_intersection 4 (\<lambda>k. 0)) (init_vehicles 1 (\<lambda>k. 0)))
          = Inr s'"
    by (simp add: run_eval)
  from t r
    conservation [where rs = "\<lambda>k. 0" and N = 1 and dt = 1 and n = 2 and s = s
      and fuel = 4 and s' = s']
  show ?thesis by simp
qed

theorem one_shot_crossing_witness:
  "(\<exists>s. ticks 2 1 (initial_state (init_intersection 4 (\<lambda>k. 0)) (init_vehicles 1 (\<lambda>k. 0))) = Inr s \<and>
        list_all (\<lambda>v. crossings v = 0 \<or> crossings v = 1) (vehicles s)) \<and>
   move_vehicle
     \<lparr>id_vehicle = 0, lane = 0, pos = 0, speed = 6, waiting = False,
      total_wait = 0, crossings = 1, finished = True\<rparr> (init_intersection 4 (\<lambda>k. 0)) 1
   = Inr (0, \<lparr>id_vehicle = 0, lane = 0, pos = 0, speed = 6, waiting = False,
              total_wait = 0, crossings = 1, finished = True\<rparr>) \<and>
   (\<exists>t'. ticks 3 1
           \<lparr>isect = init_intersection 4 (\<lambda>k. 0),
            vehicles = [\<lparr>id_vehicle = 0, lane = 0, pos = 0, speed = 6, waiting = False,
                         total_wait = 0, crossings = 1, finished = True\<rparr>],
            total_crossed = 1, crossed_now = [1], step = 4, sim_time = 4\<rparr> = Inr t' \<and>
         vehicles t' ! 0 = \<lparr>id_vehicle = 0, lane = 0, pos = 0, speed = 6, waiting = False,
                             total_wait = 0, crossings = 1, finished = True\<rparr>)"
proof -
  let ?v = "\<lparr>id_vehicle = 0, lane = 0, pos = 0, speed = 6, waiting = False,
             total_wait = 0, crossings = 1, finished = True\<rparr>"
  let ?t = "\<lparr>isect = init_intersection 4 (\<lambda>k. 0), vehicles = [?v],
             total_crossed = 1, crossed_now = [1], step = 4, sim_time = 4\<rparr>"
  obtain s where
    a: "ticks 2 1 (initial_state (init_intersection 4 (\<lambda>k. 0)) (init_vehicles 1 (\<lambda>k. 0))) = Inr s"
    by (simp add: run_eval numeral_2_eq_2)
  obtain t' where b: "ticks 3 1 ?t = Inr t'"
    by (simp add: run_eval numeral_3_eq_3)
  from a b
    one_shot_crossing [where rs = "\<lambda>k. 0" and N = 1 and dt = 1 and n = 2 and s = s
      and v = ?v and X = "init_intersection 4 (\<lambda>k. 0)" and dt' = 1
      and m = 3 and t = ?t and t' = t' and i = 0]
  show ?thesis by (simp add: list_all_iff)
qed

section \<open>What a call of \<open>move_vehicle\<close> reads and writes\<close>

text \<open>
  Claim C9, as the code has it.  Besides the vehicle and the light of its lane,
  the call reads the stop offset of the intersection: two intersections with the
  same lights and different stop offsets leave the same vehicle at different
  positions.
\<close>

theorem move_vehicle_reads_counterexample:
  "move_vehicle
     \<lparr>id_vehicle = 0, lane = 0, pos = 1, speed = 1, waiting = False,
      total_wait = 0, crossings = 0, finished = False\<rparr>
     \<lparr>num_lanes = 1, num_lights = 1, stop_distance = 2,
      lights = [\<lparr>id_light = 0, state = RED, time_in_state = 0,
                 t_green = 5, t_yellow = 2, t_red = 5\<rparr>]\<rparr> 1
   = Inr (0, \<lparr>id_vehicle = 0, lane = 0, pos = 2, speed = 1, waiting = True,
              total_wait = 1, crossings = 0, finished = False\<rparr>) \<and>
   move_vehicle
     \<lparr>id_vehicle = 0, lane = 0, pos = 1, speed = 1, waiting = False,
      total_wait = 0, crossings = 0, finished = False\<rparr>
     \<lparr>num_lanes = 1, num_lights = 1, stop_distance = 3,
      lights = [\<lparr>id_light = 0, state = RED, time_in_state = 0,
                 t_green = 5, t_yellow = 2, t_red = 5\<rparr>]\<rparr> 1
   = Inr (0, \<lparr>id_vehicle = 0, lane = 0, pos = 3, speed = 1, waiting = True,
              total_wait = 1, crossings = 0, finished = False\<rparr>)"
  by (simp add: move_vehicle_def wait_and_return_def)

text \<open>
  Claim C9, amended.  The call of \<open>move_vehicle\<close> on vehicle \<open>i\<close> leaves every other
  vehicle and the whole intersection (lights, lane count, stop offset) as they
  were.  What it returns and what it makes of vehicle \<open>i\<close> is the same in any two
  memories that agree on vehicle \<open>i\<close>, on the light of its lane and on the stop
  offset: the call reads vehicle \<open>i\<close>, that light and the stop offset only.
\<close>

theorem move_vehicle_frame:
  "(move_vehicle_at i (Vs, X) dt = Inr (c, Vs', X') \<longrightarrow>
      X' = X \<and> length Vs' = length Vs \<and> (\<forall>j. j \<noteq> i \<longrightarrow> Vs' ! j = Vs ! j) \<and>
      move_vehicle (Vs ! i) X dt = Inr (c, Vs' ! i)) \<and>
   (i < length Vs \<and> i < length Ws \<and> Ws ! i = Vs ! i \<and>
    0 \<le> lane (Vs ! i) \<and> lane (Vs ! i) < int (length (lights X)) \<and>
    lane (Vs ! i) < int (length (lights Y)) \<and>
    lights Y ! nat (lane (Vs ! i)) = lights X ! nat (lane (Vs ! i)) \<and>
    stop_distance Y = stop_distance X \<longrightarrow>
      outcome_at i (move_vehicle_at i (Ws, Y) dt) = outcome_at i (move_vehicle_at i (Vs, X) dt))"
proof (rule conjI; rule impI)
  assume a: "move_vehicle_at i (Vs, X) dt = Inr (c, Vs', X')"
  then have i: "i < length Vs"
    by (auto simp add: move_vehicle_at_def split: if_splits)
  with a obtain v' where mv: "move_vehicle (Vs ! i) X dt = Inr (c, v')"
    and eq: "Vs' = Vs[i := v']" "X' = X"
    by (auto simp add: move_vehicle_at_def split: sum.splits)
  from eq i
  show "X' = X \<and> length Vs' = length Vs \<and> (\<forall>j. j \<noteq> i \<longrightarrow> Vs' ! j = Vs ! j) \<and>
        move_vehicle (Vs ! i) X dt = Inr (c, Vs' ! i)"
    using mv by simp
next
  assume b: "i < length Vs \<and> i < length Ws \<and> Ws ! i = Vs ! i \<and>
    0 \<le> lane (Vs ! i) \<and> lane (Vs ! i) < int (length (lights X)) \<and>
    lane (Vs ! i) < int (length (lights Y)) \<and>
    lights Y ! nat (lane (Vs ! i)) = lights X ! nat (lane (Vs ! i)) \<and>
    stop_distance Y = stop_distance X"
  then have "move_vehicle (Ws ! i) Y dt = move_vehicle (Vs ! i) X dt"
    by (simp add: move_vehicle_veh_step)
  moreover have "move_vehicle (Vs ! i) X dt =
      Inr (veh_step (Vs ! i) (state (lights X ! nat (lane (Vs ! i)))) (stop_distance X) dt)"
    using b by (intro move_vehicle_veh_step) simp
  ultimately show
    "outcome_at i (move_vehicle_at i (Ws, Y) dt) = outcome_at i (move_vehicle_at i (Vs, X) dt)"
    using b by (simp add: outcome_at_def move_vehicle_at_def split: prod.splits)
qed

text \<open>Two vehicles at an intersection of two lanes; the second one arrives at the
  line under red.  The same call in a memory with another first vehicle and
  another lane count gives the same result for the second vehicle.\<close>

theorem move_vehicle_frame_witness:
  "move_vehicle_at 1
     ([\<lparr>id_vehicle = 0, lane = 0, pos = 9, speed = 6, waiting = False,
        total_wait = 0, crossings = 0, finished = False\<rparr>,
       \<lparr>id_vehicle = 1, lane = 1, pos = 5, speed = 5, waiting = False,
        total_wait = 0, crossings = 0, finished = False\<rparr>],
      init_intersection 2 (\<lambda>k. 0)) 1
   = Inr (0,
      [\<lparr>id_vehicle = 0, lane = 0, pos = 9, speed = 6, waiting = False,
        total_wait = 0, crossings = 0, finished = False\<rparr>,
       \<lparr>id_vehicle = 1, lane = 1, pos = 2, speed = 5, waiting = True,
        total_wait = 1, crossings = 0, finished = False\<rparr>],
      init_intersection 2 (\<lambda>k. 0)) \<and>
   outcome_at 1 (move_vehicle_at 1
     ([\<lparr>id_vehicle = 7, lane = 0, pos = 1, speed = 8, waiting = False,
        total_wait = 0, crossings = 0, finished = False\<rparr>,
       \<lparr>id_vehicle = 1, lane = 1, pos = 5, speed = 5, waiting = False,
        total_wait = 0, crossings = 0, finished = False\<rparr>],
      (init_intersection 2 (\<lambda>k. 0))\<lparr>num_lanes := 7\<rparr>) 1)
   = Inr (0, \<lparr>id_vehicle = 1, lane = 1, pos = 2, speed = 5, waiting = True,
              total_wait = 1, crossings = 0, finished = False\<rparr>)"
proof -
  let ?v0 = "\<lparr>id_vehicle = 0, lane = 0, pos = 9, speed = 6, waiting = False,
              total_wait = 0, crossings = 0, finished = False\<rparr>"
  let ?w0 = "\<lparr>id_vehicle = 7, lane = 0, pos = 1, speed = 8, waiting = False,
              total_wait = 0, crossings = 0, finished = False\<rparr>"
  let ?v1 = "\<lparr>id_vehicle = 1, lane = 1, pos = 5, speed = 5, waiting = False,
              total_wait = 0, crossings = 0, finished = False\<rparr>"
  let ?v1' = "\<lparr>id_vehicle = 1, lane = 1, pos = 2, speed = 5, waiting = True,
               total_wait = 1, crossings = 0, finished = False\<rparr>"
  let ?X = "init_intersection 2 (\<lambda>k. 0)"
  have u: "[0..<nat 2] = [0, 1]" by (simp add: upt_rec)
  have a: "move_vehicle_at 1 ([?v0, ?v1], ?X) 1 = Inr (0, [?v0, ?v1'], ?X)"
    by (simp add: move_vehicle_at_def move_vehicle_def wait_and_return_def
        init_intersection_def u)
  from a move_vehicle_frame
    [where i = 1 and Vs = "[?v0, ?v1]" and X = ?X and dt = 1 and c = 0
       and Vs' = "[?v0, ?v1']" and X' = ?X and Ws = "[?w0, ?v1]"
       and Y = "?X\<lparr>num_lanes := 7\<rparr>"]
  show ?thesis by (simp add: init_intersection_def u outcome_at_def)
qed

section \<open>Configurations that are not valid\<close>

lemma rand_uniform_bounds:
  assumes "0 \<le> u" and "u \<le> 1" and "a \<le> b"
  shows "a \<le> rand_uniform a b u" and "rand_uniform a b u \<le> b"
proof -
  have "0 \<le> (b - a) * u" using assms by simp
  then show "a \<le> rand_uniform a b u" by (simp add: rand_uniform_def)
  have "(b - a) * u \<le> (b - a) * 1" using assms by (intro mult_left_mono) simp_all
  then show "rand_uniform a b u \<le> b" by (simp add: rand_uniform_def)
qed

lemma init_intersection_durations:
  assumes "\<forall>k. 0 \<le> rs k \<and> rs k \<le> 1" and "L \<in> set (lights (init_intersection n rs))"
  shows "5 \<le> t_green L \<and> t_green L \<le> 9 \<and> 2 \<le> t_yellow L \<and> t_yellow L \<le> 4 \<and>
         5 \<le> t_red L \<and> t_red L \<le> 9"
  using assms rand_uniform_bounds [of "rs _" 5 9] rand_uniform_bounds [of "rs _" 2 4]
  by (auto simp add: init_intersection_def)

text \<open>
  Claim C7, as the code has it.  Started with a vehicle count of 0, \<open>main\<close> does
  not reject anything: it calls \<open>run_simulation\<close>, whose loop is left at once, and
  returns the exit status 0 after the final metrics have been computed over no
  vehicle (the average wait is \<^verbatim>\<open>0.0 / 0.0\<close>).
\<close>

theorem main_counterexample:
  "main 0 (\<lambda>seed k. 0) 0 [0]
   = Inr (0, \<lparr>steps_executed = 0, vehicles_crossed = 0, total_crossings = 0,
               avg_wait = None, simulated_time = 0\<rparr>)"
  by (simp add: main_def run_simulation_def initial_state_def final_stats_def init_vehicles_def)

text \<open>
  Claim C7, amended.  The program does not validate its configuration.  For every
  vehicle count \<open>N \<le> 0\<close> on the command line, \<open>main\<close> enters \<open>run_simulation\<close>; the
  loop runs no tick, the final metrics are computed over no vehicle (0 crossed,
  an average wait of \<^verbatim>\<open>0.0 / N\<close>, not a number for \<open>N = 0\<close>), and the exit status is
  0.  The phase durations are not part of the configuration: \<open>init_intersection\<close>
  draws green and red in 5 .. 9 s and yellow in 2 .. 4 s, so no run is entered with
  a phase duration that is not positive.
\<close>

theorem main_accepts_every_count:
  "(N \<le> 0 \<longrightarrow>
      main fuel stream now (N # rest)
      = Inr (0, \<lparr>steps_executed = 0, vehicles_crossed = 0, total_crossings = 0,
                  avg_wait = (if N = 0 then None else Some 0), simulated_time = 0\<rparr>)) \<and>
   ((\<forall>k. 0 \<le> rs k \<and> rs k \<le> 1) \<longrightarrow>
      (\<forall>L\<in>set (lights (init_intersection 4 rs)).
         5 \<le> t_green L \<and> t_green L \<le> 9 \<and> 2 \<le> t_yellow L \<and> t_yellow L \<le> 4 \<and>
         5 \<le> t_red L \<and> t_red L \<le> 9))"
proof (rule conjI; rule impI)
  assume "N \<le> 0"
  then show "main fuel stream now (N # rest)
      = Inr (0, \<lparr>steps_executed = 0, vehicles_crossed = 0, total_crossings = 0,
                  avg_wait = (if N = 0 then None else Some 0), simulated_time = 0\<rparr>)"
    by (simp add: main_def run_simulation_def initial_state_def final_stats_def
        init_vehicles_def)
next
  assume "\<forall>k. 0 \<le> rs k \<and> rs k \<le> 1"
  then show "\<forall>L\<in>set (lights (init_intersection 4 rs)).
         5 \<le> t_green L \<and> t_green L \<le> 9 \<and> 2 \<le> t_yellow L \<and> t_yellow L \<le> 4 \<and>
         5 \<le> t_red L \<and> t_red L \<le> 9"
    using init_intersection_durations by blast
qed

theorem main_accepts_every_count_witness:
  "main 0 (\<lambda>seed k. 1 / 2) 0 [- 3, 1, 42]
   = Inr (0, \<lparr>steps_executed = 0, vehicles_crossed = 0, total_crossings = 0,
               avg_wait = Some 0, simulated_time = 0\<rparr>) \<and>
   list_all (\<lambda>L. 5 \<le> t_green L \<and> t_green L \<le> 9 \<and> 2 \<le> t_yellow L \<and> t_yellow L \<le> 4 \<and>
                 5 \<le> t_red L \<and> t_red L \<le> 9)
     (lights (init_intersection 4 (\<lambda>k. 1 / 2)))"
  using main_accepts_every_count
    [where N = "- 3" and fuel = 0 and stream = "\<lambda>seed k. 1 / 2" and now = 0
       and rest = "[1, 42]" and rs = "\<lambda>k. 1 / 2"]
  by (simp add: list_all_iff)

section \<open>The program with the arithmetic of the machine: basic facts\<close>

subsection \<open>With exact operations it is the model in real numbers\<close>

lemma exact_arith_sel [simp]:
  "fadd exact_arith = (+)" "fsub exact_arith = (-)" "fmul exact_arith = (*)"
  by (simp_all add: exact_arith_def)

lemma update_traffic_light_exact:
  "update_traffic_light_fp exact_arith L dt = update_traffic_light L dt"
  by (simp add: update_traffic_light_fp_def update_traffic_light_def Let_def)

lemma wait_and_return_exact: "wait_and_return_fp exact_arith V dt = wait_and_return V dt"
  by (simp add: wait_and_return_fp_def wait_and_return_def)

lemma move_vehicle_exact: "move_vehicle_fp exact_arith V X dt = move_vehicle V X dt"
  by (simp add: move_vehicle_fp_def move_vehicle_def wait_and_return_exact Let_def)

lemma move_all_exact: "move_all_fp exact_arith Vs X dt = move_all Vs X dt"
  by (induction Vs) (simp_all add: move_vehicle_exact cong: sum.case_cong)

lemma tick_exact: "tick_fp exact_arith dt s = tick dt s"
  by (simp add: tick_fp_def tick_def move_all_exact update_traffic_light_exact Let_def
      split: sum.splits prod.splits)

lemma ticks_exact: "ticks_fp exact_arith n dt s = ticks n dt s"
  by (induction n arbitrary: s) (simp_all add: tick_exact cong: sum.case_cong)

lemma run_loop_exact: "run_loop_fp exact_arith fuel N dt s = run_loop fuel N dt s"
  by (induction fuel arbitrary: s) (simp_all add: tick_exact cong: sum.case_cong)

lemma start_state_exact:
  "start_state exact_arith rs N =
     initial_state (init_intersection 4 rs) (init_vehicles N (\<lambda>k. rs (k + 12)))"
  by (simp add: start_state_def init_intersection_fp_def init_intersection_def
      init_vehicles_fp_def init_vehicles_def rand_uniform_fp_def rand_uniform_def)

subsection \<open>One call of \<open>move_vehicle_fp\<close>\<close>


lemma move_vehicle_fp_count:
  assumes "move_vehicle_fp ar v X0 dt = Inr (c, v')"
  shows "c = (if finished v' \<and> \<not> finished v then 1 else 0) \<and> (finished v \<longrightarrow> v' = v) \<and>
         lane v' = lane v \<and> speed v' = speed v"
  using assms
  unfolding move_vehicle_fp_def wait_and_return_fp_def Let_def
  by (auto split: if_splits)

text \<open>A finished vehicle does not wait: the crossing branch is entered under green
  or yellow only, where the waiting flag has just been cleared.\<close>

lemma move_vehicle_fp_not_waiting:
  assumes "move_vehicle_fp ar v X0 dt = Inr (c, v')" and "finished v \<longrightarrow> \<not> waiting v"
  shows "finished v' \<longrightarrow> \<not> waiting v'"
  using assms
  unfolding move_vehicle_fp_def wait_and_return_fp_def Let_def
  by (auto split: if_splits)

subsection \<open>The loop over the vehicles and the tick\<close>

lemma move_all_fp_length:
  "move_all_fp ar Vs X0 dt = Inr (cs, cn, Vs') \<Longrightarrow>
     length Vs' = length Vs \<and> length cn = length Vs"
  by (induction Vs arbitrary: cs cn Vs') (auto split: sum.splits prod.splits)

lemma move_all_fp_nth:
  "move_all_fp ar Vs X0 dt = Inr (cs, cn, Vs') \<Longrightarrow> i < length Vs \<Longrightarrow>
     \<exists>c. move_vehicle_fp ar (Vs ! i) X0 dt = Inr (c, Vs' ! i)"
proof (induction Vs arbitrary: cs cn Vs' i)
  case Nil
  then show ?case by simp
next
  case (Cons v vs)
  then show ?case
    by (cases i) (auto split: sum.splits prod.splits)
qed

lemma move_all_fp_count:
  "move_all_fp ar Vs X0 dt = Inr (cs, cn, Vs') \<Longrightarrow> num_finished Vs' = num_finished Vs + cs"
proof (induction Vs arbitrary: cs cn Vs')
  case Nil
  then show ?case by (simp add: num_finished_def)
next
  case (Cons v vs)
  from Cons.prems obtain c v' cs' cn' vs' where
    mv: "move_vehicle_fp ar v X0 dt = Inr (c, v')" and
    rest: "move_all_fp ar vs X0 dt = Inr (cs', cn', vs')" and
    eq: "cs = c + cs'" "Vs' = v' # vs'"
    by (auto split: sum.splits prod.splits)
  from Cons.IH [OF rest] have "num_finished vs' = num_finished vs + cs'" .
  moreover from move_vehicle_fp_count [OF mv]
  have "c = (if finished v' \<and> \<not> finished v then 1 else 0)" "finished v \<longrightarrow> v' = v" by simp_all
  ultimately show ?case
    using eq by (auto simp add: num_finished_def)
qed


lemma tick_fp_conserves:
  assumes "tick_fp ar dt s = Inr s'"
  shows "total_crossed s' - num_finished (vehicles s') = total_crossed s - num_finished (vehicles s)"
    and "length (vehicles s') = length (vehicles s)"
  using assms move_all_fp_count move_all_fp_length
  unfolding tick_fp_def Let_def
  by (fastforce split: sum.splits prod.splits)+


lemma tick_fp_nth:
  assumes "tick_fp ar dt s = Inr s'" and "i < length (vehicles s)"
  shows "\<exists>c. move_vehicle_fp ar (vehicles s ! i)
                ((isect s)\<lparr>lights :=
                   map (\<lambda>L. update_traffic_light_fp ar L dt) (lights (isect s))\<rparr>) dt
              = Inr (c, vehicles s' ! i)"
proof -
  from assms(1) obtain cs cn V1 where
    "move_all_fp ar (vehicles s)
       ((isect s)\<lparr>lights := map (\<lambda>L. update_traffic_light_fp ar L dt) (lights (isect s))\<rparr>) dt
     = Inr (cs, cn, V1)" and "vehicles s' = V1"
    unfolding tick_fp_def Let_def by (auto split: sum.splits prod.splits)
  with move_all_fp_nth [OF this(1) assms(2)] show ?thesis by simp
qed






subsection \<open>A tick, vehicle by vehicle\<close>

lemma veh_step_fp_keeps [simp]:
  "lane (snd (veh_step_fp ar v st sd dt)) = lane v"
  "speed (snd (veh_step_fp ar v st sd dt)) = speed v"
  by (simp_all add: veh_step_fp_def Let_def)



section \<open>The arithmetic of binary64\<close>


lemma round_even_of_int [simp]: "round_even (of_int m) = m"
  by (simp add: round_even_def)


lemma rnd64_unfold:
  assumes "x \<noteq> 0"
  shows "rnd64 x = of_int (round_even (x / 2 powr (of_int \<lfloor>log 2 \<bar>x\<bar>\<rfloor> - 52)))
                     * 2 powr (of_int \<lfloor>log 2 \<bar>x\<bar>\<rfloor> - 52)"
  using assms by (simp add: rnd64_def Let_def)





lemma accurate_exact: "accurate exact_arith"
  by (simp add: accurate_def)

text \<open>Binary64 represents every integer of magnitude below \<open>2^53\<close>; sums of such
  integers are therefore exact.\<close>

lemma rnd64_of_int:
  assumes "\<bar>n\<bar> < 2 ^ 53"
  shows "rnd64 (of_int n) = of_int n"
proof (cases "n = 0")
  case True
  then show ?thesis by (simp add: rnd64_def)
next
  case False
  define e where "e = \<lfloor>log 2 \<bar>real_of_int n\<bar>\<rfloor> - 52"
  define u :: real where "u = 2 powr of_int e"
  have u: "0 < u" by (simp add: u_def)
  have nz: "real_of_int n \<noteq> 0" using False by simp
  have r: "rnd64 (of_int n) = of_int (round_even (of_int n / u)) * u"
    using rnd64_unfold [OF nz] by (simp add: u_def e_def)
  have "\<bar>real_of_int n\<bar> < 2 ^ 53"
  proof -
    from assms have "real_of_int \<bar>n\<bar> < real_of_int (2 ^ 53)" by (simp only: of_int_less_iff)
    then show ?thesis by simp
  qed
  moreover have "0 < \<bar>real_of_int n\<bar>" using False by simp
  ultimately have "log 2 \<bar>real_of_int n\<bar> < 53"
    by (simp add: log_less_iff powr_numeral)
  then have "\<lfloor>log 2 \<bar>real_of_int n\<bar>\<rfloor> < 53" by (simp add: floor_less_iff)
  then have e: "e \<le> 0" by (simp add: e_def)
  have "1 / u = 2 powr of_int (- e)" by (simp add: u_def powr_minus_divide)
  also have "\<dots> = 2 powr real (nat (- e))" using e by simp
  also have "\<dots> = 2 ^ nat (- e)" by (simp add: powr_realpow)
  finally have inv: "1 / u = real_of_int (2 ^ nat (- e))" by simp
  have "real_of_int n / u = real_of_int n * (1 / u)" by simp
  also have "\<dots> = real_of_int (n * 2 ^ nat (- e))" by (simp only: inv of_int_mult)
  finally have y: "real_of_int n / u = real_of_int (n * 2 ^ nat (- e))" .
  have "real_of_int (round_even (real_of_int n / u)) * u = real_of_int (n * 2 ^ nat (- e)) * u"
    by (simp only: y round_even_of_int)
  also have "\<dots> = real_of_int n / u * u" by (simp only: y)
  also have "\<dots> = real_of_int n" using u by simp
  finally show ?thesis by (simp only: r)
qed


section \<open>The time a light spends in a phase\<close>

lemma update_traffic_light_fp_durations [simp]:
  "t_green (update_traffic_light_fp ar L dt) = t_green L"
  "t_yellow (update_traffic_light_fp ar L dt) = t_yellow L"
  "t_red (update_traffic_light_fp ar L dt) = t_red L"
  by (cases "state L"; simp add: update_traffic_light_fp_def Let_def)+







section \<open>Termination of the tick loop\<close>

subsection \<open>What accurate arithmetic gives\<close>










subsection \<open>One vehicle next to the light of its lane\<close>








subsection \<open>What \<open>run_simulation\<close> builds\<close>


lemma start_state_fields:
  "isect (start_state ar rs N) = init_intersection_fp ar 4 rs"
  "vehicles (start_state ar rs N) = init_vehicles_fp ar N (\<lambda>k. rs (k + 12))"
  "total_crossed (start_state ar rs N) = 0"
  by (simp_all add: start_state_def initial_state_def)



lemma init_vehicles_fp_props:
  assumes "v \<in> set (init_vehicles_fp ar N rs)"
  shows "\<not> finished v" and "\<not> waiting v" and "0 \<le> lane v" and "lane v < 4"
  using assms by (auto simp add: init_vehicles_fp_def)




subsection \<open>The loop\<close>



section \<open>A vehicle that waits under red\<close>

lemma tick_fp_not_waiting:
  assumes t: "tick_fp ar dt s = Inr s'"
    and inv: "\<forall>v\<in>set (vehicles s). finished v \<longrightarrow> \<not> waiting v"
  shows "\<forall>v\<in>set (vehicles s'). finished v \<longrightarrow> \<not> waiting v"
proof
  fix v' assume "v' \<in> set (vehicles s')"
  then obtain i where i: "i < length (vehicles s')" and v': "v' = vehicles s' ! i"
    by (auto simp add: in_set_conv_nth)
  from i tick_fp_conserves(2) [OF t] have i': "i < length (vehicles s)" by simp
  then have "vehicles s ! i \<in> set (vehicles s)" by simp
  with inv have old: "finished (vehicles s ! i) \<longrightarrow> \<not> waiting (vehicles s ! i)" by blast
  from tick_fp_nth [OF t i'] obtain c where
    "move_vehicle_fp ar (vehicles s ! i)
       ((isect s)\<lparr>lights := map (\<lambda>L. update_traffic_light_fp ar L dt) (lights (isect s))\<rparr>) dt
     = Inr (c, vehicles s' ! i)" ..
  from move_vehicle_fp_not_waiting [OF this old] v'
  show "finished v' \<longrightarrow> \<not> waiting v'" by simp
qed

lemma ticks_fp_not_waiting:
  "ticks_fp ar n dt s = Inr s' \<Longrightarrow> \<forall>v\<in>set (vehicles s). finished v \<longrightarrow> \<not> waiting v \<Longrightarrow>
     \<forall>v\<in>set (vehicles s'). finished v \<longrightarrow> \<not> waiting v"
proof (induction n arbitrary: s)
  case 0
  then show ?case by simp
next
  case (Suc n)
  from Suc.prems(1) obtain s1 where t: "tick_fp ar dt s = Inr s1"
    and r: "ticks_fp ar n dt s1 = Inr s'"
    by (auto split: sum.splits)
  from Suc.IH [OF r tick_fp_not_waiting [OF t Suc.prems(2)]] show ?case .
qed

lemma start_state_not_waiting:
  "\<forall>v\<in>set (vehicles (start_state ar rs N)). finished v \<longrightarrow> \<not> waiting v"
  using init_vehicles_fp_props(2) by (auto simp add: start_state_fields)

lemma rnd64_numeral: "(numeral w :: int) < 2 ^ 53 \<Longrightarrow> rnd64 (numeral w) = numeral w"
  using rnd64_of_int [of "numeral w"] by simp

lemma rnd64_neg_numeral:
  "(numeral w :: int) < 2 ^ 53 \<Longrightarrow> rnd64 (- numeral w) = - numeral w"
  using rnd64_of_int [of "- numeral w"] by simp

lemma rnd64_zero_one: "rnd64 0 = 0" "rnd64 1 = 1"
  using rnd64_of_int [of 0] rnd64_of_int [of 1] by simp_all

lemma upt_literal: "[0..<4] = [0, 1, 2, 3]" "[0..<2] = [0, Suc 0]"
  by (simp_all add: upt_rec)

lemmas run_fp_eval =
  start_state_def initial_state_def init_intersection_fp_def init_vehicles_fp_def
  rand_uniform_fp_def upt_literal tick_fp_def move_vehicle_fp_def
  update_traffic_light_fp_def wait_and_return_fp_def Let_def binary64_arith_def
  rnd64_numeral rnd64_neg_numeral rnd64_zero_one

text \<open>
  Claim C10.  In every state that the simulation reaches (any number of ticks from
  the state in which \<open>run_simulation\<close> enters its loop, whatever the draws, the
  vehicle count, the tick length and the arithmetic), a vehicle \<open>V\<close> whose waiting
  flag is set, whose position is the stop offset of the intersection \<open>X\<close> and whose
  lane's light in \<open>X\<close> is red is only made to wait by \<open>move_vehicle\<close>: the call
  returns 0, and the vehicle it leaves is \<open>V\<close> with \<open>dt\<close> added to its cumulative
  waiting time; the position, the waiting flag, the finished flag, the crossings,
  the identifier, the lane and the speed are those of \<open>V\<close>.  This holds for every
  \<open>dt\<close> and every stop offset.
\<close>

theorem waiting_at_red_only_waits:
  assumes "ticks_fp ar n dt0 (start_state ar rs N) = Inr s" and "V \<in> set (vehicles s)"
    and "waiting V" and "pos V = stop_distance X"
    and "0 \<le> lane V" and "lane V < int (length (lights X))"
    and "state (lights X ! nat (lane V)) = RED"
  shows "move_vehicle_fp ar V X dt = Inr (0, V\<lparr>total_wait := fadd ar (total_wait V) dt\<rparr>)"
proof -
  from ticks_fp_not_waiting [OF assms(1) start_state_not_waiting] assms(2,3)
  have "\<not> finished V" by blast
  with assms(3-7) show ?thesis
    by (simp add: move_vehicle_fp_def wait_and_return_fp_def Let_def)
qed


text \<open>Two vehicles, every draw 0, binary64 arithmetic and the program's tick of
  1 s: after four ticks the second vehicle, on the lane of a light that is red for
  5 s, has been put at the stop offset and waits; one more call leaves it there
  and adds 1 s to the second of waiting that it has.\<close>

theorem waiting_at_red_only_waits_witness:
  "\<exists>s. ticks_fp binary64_arith 4 1 (start_state binary64_arith (\<lambda>k. 0) 2) = Inr s \<and>
       waiting (vehicles s ! 1) \<and> pos (vehicles s ! 1) = stop_distance (isect s) \<and>
       lane (vehicles s ! 1) = 1 \<and> state (lights (isect s) ! 1) = RED \<and>
       total_wait (vehicles s ! 1) = 1 \<and>
       move_vehicle_fp binary64_arith (vehicles s ! 1) (isect s) 1
         = Inr (0, (vehicles s ! 1)\<lparr>total_wait := 2\<rparr>)"
proof -
  have four: "(4::nat) = Suc (Suc (Suc (Suc 0)))" by simp
  have "\<exists>s. ticks_fp binary64_arith 4 1 (start_state binary64_arith (\<lambda>k. 0) 2) = Inr s \<and>
          length (vehicles s) = 2 \<and> waiting (vehicles s ! 1) \<and>
          pos (vehicles s ! 1) = stop_distance (isect s) \<and> lane (vehicles s ! 1) = 1 \<and>
          length (lights (isect s)) = 4 \<and> state (lights (isect s) ! 1) = RED \<and>
          total_wait (vehicles s ! 1) = 1"
    unfolding four by (simp add: run_fp_eval)
  then obtain s where
    t: "ticks_fp binary64_arith 4 1 (start_state binary64_arith (\<lambda>k. 0) 2) = Inr s"
    and v: "length (vehicles s) = 2" "waiting (vehicles s ! 1)"
      "pos (vehicles s ! 1) = stop_distance (isect s)" "lane (vehicles s ! 1) = 1"
      "length (lights (isect s)) = 4" "state (lights (isect s) ! 1) = RED"
      "total_wait (vehicles s ! 1) = 1"
    by blast
  from v(1) have m: "vehicles s ! 1 \<in> set (vehicles s)" by simp
  from waiting_at_red_only_waits [OF t m v(2,3), where dt = 1] v
  have "move_vehicle_fp binary64_arith (vehicles s ! 1) (isect s) 1
          = Inr (0, (vehicles s ! 1)\<lparr>total_wait := 2\<rparr>)"
    by (simp add: binary64_arith_def rnd64_numeral)
  with t v show ?thesis by blast
qed

end
